theory Spec2Isabelle
  imports Main "HOL-Library.Sublist" "HOL-Library.Multiset"
begin

section \<open>Strings\<close>

text \<open>
  A JavaScript string is a sequence of UTF-16 code units, kept here as a list of numbers
  (each below 65536; the only arithmetic on them adds 32 to a capital letter). \<open>js\<close> turns
  an ASCII literal into such a string, and \<open>dot\<close> is the code unit of the full stop.
\<close>

type_synonym code_unit = nat

type_synonym jsstring = "code_unit list"

definition js :: "string \<Rightarrow> jsstring" where
  "js s = map of_char s"

definition dot :: code_unit where
  "dot = 0x2E"

text \<open>
  The regular expression class \<^verbatim>\<open>\s\<close>: tab, line feed, vertical tab, form feed, carriage
  return, space, no-break space, U+1680, U+2000 to U+200A, the line and paragraph
  separators U+2028 and U+2029, U+202F, U+205F, U+3000 and the byte order mark U+FEFF.
\<close>

definition isWhiteSpace :: "code_unit \<Rightarrow> bool" where
  "isWhiteSpace c =
     (c \<in> {0x09, 0x0A, 0x0B, 0x0C, 0x0D, 0x20, 0xA0, 0x1680, 0x2028, 0x2029, 0x202F, 0x205F,
            0x3000, 0xFEFF}
      \<or> (0x2000 \<le> c \<and> c \<le> 0x200A))"

text \<open>
  \<^verbatim>\<open>toLowerCase\<close> follows the Unicode default case conversion. The model is exact on the
  strings made of these code units: Basic Latin and Latin-1 Supplement (below 256), the
  Greek capital letters U+0391 to U+03A9 and small letters U+03B1 to U+03C9, and the white
  space above. On them every capital letter moves up by 32 (A to Z, the accented capitals
  U+00C0 to U+00DE without the multiplication sign U+00D7, the Greek capitals), with one
  rule that looks at the context: a capital sigma U+03A3 becomes the final small sigma
  U+03C2 when a cased letter stands before it, with only case-ignorable units in between,
  and no cased letter stands after it, with only case-ignorable units in between;
  otherwise it becomes the small sigma U+03C3. Any other code unit is kept as it is and
  counts as neither cased nor case-ignorable.
\<close>

definition isCased :: "code_unit \<Rightarrow> bool" where
  "isCased c =
     ((0x41 \<le> c \<and> c \<le> 0x5A) \<or> (0x61 \<le> c \<and> c \<le> 0x7A)
      \<or> c = 0xAA \<or> c = 0xB5 \<or> c = 0xBA
      \<or> (0xC0 \<le> c \<and> c \<le> 0xD6) \<or> (0xD8 \<le> c \<and> c \<le> 0xF6) \<or> (0xF8 \<le> c \<and> c \<le> 0xFF)
      \<or> (0x391 \<le> c \<and> c \<le> 0x3A1) \<or> (0x3A3 \<le> c \<and> c \<le> 0x3A9)
      \<or> (0x3B1 \<le> c \<and> c \<le> 0x3C9))"

definition isCaseIgnorable :: "code_unit \<Rightarrow> bool" where
  "isCaseIgnorable c =
     (c \<in> {0x27, 0x2E, 0x3A, 0x5E, 0x60, 0xA8, 0xAD, 0xAF, 0xB4, 0xB7, 0xB8, 0xFEFF})"

definition lowerUnit :: "code_unit \<Rightarrow> code_unit" where
  "lowerUnit c =
     (if (0x41 \<le> c \<and> c \<le> 0x5A) \<or> (0xC0 \<le> c \<and> c \<le> 0xDE \<and> c \<noteq> 0xD7)
         \<or> (0x391 \<le> c \<and> c \<le> 0x3A9 \<and> c \<noteq> 0x3A2)
      then c + 32 else c)"

text \<open>
  A cased letter stands next, with only case-ignorable units before it. The function is
  used on the units after a sigma, and on the units before it read backwards.
\<close>

fun casedNext :: "jsstring \<Rightarrow> bool" where
  "casedNext [] = False"
| "casedNext (c # cs) = (isCased c \<or> (isCaseIgnorable c \<and> casedNext cs))"

text \<open>
  \<open>lowerFrom before s\<close> lowercases \<open>s\<close>, the rest of a string whose units already passed are
  \<open>before\<close>, the nearest first.
\<close>

fun lowerFrom :: "jsstring \<Rightarrow> jsstring \<Rightarrow> jsstring" where
  "lowerFrom before [] = []"
| "lowerFrom before (c # cs) =
     (if c = 0x3A3 then (if casedNext before \<and> \<not> casedNext cs then 0x3C2 else 0x3C3)
      else lowerUnit c) # lowerFrom (c # before) cs"

definition toLowerCase :: "jsstring \<Rightarrow> jsstring" where
  "toLowerCase s = lowerFrom [] s"

text \<open>\<^verbatim>\<open>s.startsWith(p)\<close>\<close>

definition startsWith :: "jsstring \<Rightarrow> jsstring \<Rightarrow> bool" where
  "startsWith s p = prefix p s"

text \<open>\<^verbatim>\<open>text.includes(k)\<close>: \<open>k\<close> occurs in \<open>text\<close> as a contiguous substring.\<close>

fun includes_str :: "jsstring \<Rightarrow> jsstring \<Rightarrow> bool" where
  "includes_str [] k = (k = [])"
| "includes_str (c # cs) k = (prefix k (c # cs) \<or> includes_str cs k)"

text \<open>
  \<^verbatim>\<open>path.split('.')\<close>: the pieces between the dots, empty pieces kept; the empty string
  gives one empty piece.
\<close>

fun split_dot :: "jsstring \<Rightarrow> jsstring list" where
  "split_dot [] = [[]]"
| "split_dot (c # cs) =
     (if c = dot then [] # split_dot cs
      else (c # hd (split_dot cs)) # tl (split_dot cs))"

text \<open>
  \<^verbatim>\<open>s.split(/\s+/)\<close>: the pieces between the maximal runs of white space, empty pieces
  at the two ends kept; the empty string gives one empty piece.
\<close>

function split_ws :: "jsstring \<Rightarrow> jsstring list" where
  "split_ws [] = [[]]"
| "split_ws (c # cs) =
     (if isWhiteSpace c then [] # split_ws (dropWhile isWhiteSpace cs)
      else (c # hd (split_ws cs)) # tl (split_ws cs))"
  by pat_completeness auto
termination
  by (relation "measure length") (auto simp: less_Suc_eq_le length_dropWhile_le)

section \<open>The type graph\<close>

text \<open>
  A type reference: a named type (only its \<^verbatim>\<open>name\<close> is read), or a
  \<^verbatim>\<open>GraphQLNonNull\<close> or \<^verbatim>\<open>GraphQLList\<close> wrapper with its \<^verbatim>\<open>ofType\<close>.
\<close>

datatype GraphQLType =
    Named jsstring
  | GraphQLNonNull GraphQLType
  | GraphQLList GraphQLType

record GraphQLArgument =
  arg_name :: jsstring
  arg_type :: GraphQLType
  arg_description :: "jsstring option"

record GraphQLField =
  field_name :: jsstring
  field_type :: GraphQLType
  field_description :: "jsstring option"
  field_args :: "GraphQLArgument list"

record GraphQLInputField =
  ifield_name :: jsstring
  ifield_type :: GraphQLType
  ifield_description :: "jsstring option"

record GraphQLEnumValue =
  value_name :: jsstring
  value_description :: "jsstring option"

text \<open>
  The six classes of named types that the code tests with \<^verbatim>\<open>instanceof\<close>. The result of
  \<^verbatim>\<open>getFields()\<close> is an object keyed by field name, kept here as the list of its entries
  in iteration order; a union keeps the names of its member types.
\<close>

datatype TypeClass =
    GraphQLObjectType "(jsstring \<times> GraphQLField) list"
  | GraphQLInterfaceType "(jsstring \<times> GraphQLField) list"
  | GraphQLUnionType "jsstring list"
  | GraphQLEnumType "GraphQLEnumValue list"
  | GraphQLInputObjectType "(jsstring \<times> GraphQLInputField) list"
  | GraphQLScalarType

record GraphQLNamedType =
  type_name :: jsstring
  type_description :: "jsstring option"
  type_shape :: TypeClass

record GraphQLDirective =
  directive_name :: jsstring
  directive_description :: "jsstring option"
  directive_args :: "GraphQLArgument list"

text \<open>
  \<^verbatim>\<open>getTypeMap()\<close> is an object keyed by type name, kept as the list of its entries in
  the order \<^verbatim>\<open>Object.entries\<close> yields them; \<^verbatim>\<open>getDirectives()\<close> is an array.
  \<^verbatim>\<open>getType(name)\<close> reads the key \<^verbatim>\<open>name\<close> of the type map (the map has no prototype,
  so a key that was never set is undefined), and \<^verbatim>\<open>getDirective(name)\<close> is the first
  directive of the array with that name. An object has one entry per key; a list of
  entries could repeat a key, and \<open>map_of\<close> then reads the first one. The theorems that
  need one entry per key say so.
\<close>

record GraphQLSchema =
  typeMap :: "(jsstring \<times> GraphQLNamedType) list"
  directives :: "GraphQLDirective list"

definition getType :: "GraphQLSchema \<Rightarrow> jsstring \<Rightarrow> GraphQLNamedType option" where
  "getType schema n = map_of (typeMap schema) n"

definition getDirective :: "GraphQLSchema \<Rightarrow> jsstring \<Rightarrow> GraphQLDirective option" where
  "getDirective schema n = find (\<lambda>d. directive_name d = n) (directives schema)"

section \<open>Type Printer\<close>

fun printGraphQLType :: "GraphQLType \<Rightarrow> jsstring" where
  "printGraphQLType (GraphQLNonNull t) = printGraphQLType t @ js ''!''"
| "printGraphQLType (GraphQLList t) = js ''['' @ printGraphQLType t @ js '']''"
| "printGraphQLType (Named n) = n"

section \<open>Element Collector\<close>

datatype ElementType = TypeElement | FieldElement | ArgumentElement | DirectiveElement

text \<open>The entries of \<^verbatim>\<open>args\<close>, in the collector and in the resolver.\<close>

record ArgInfo =
  ai_name :: jsstring
  ai_type :: jsstring
  ai_description :: "jsstring option"

text \<open>
  An optional key of the source's interface is an \<open>option\<close>: \<open>None\<close> when the key is
  absent or undefined.
\<close>

record SearchableElement =
  elementType :: ElementType
  name :: jsstring
  parentType :: "jsstring option"
  description :: "jsstring option"
  path :: jsstring
  typeKind :: "jsstring option"
  returnType :: "jsstring option"
  args :: "ArgInfo list option"

text \<open>\<^verbatim>\<open>d || undefined\<close>: the empty string is falsy, so an empty description is dropped.\<close>

definition or_undefined :: "jsstring option \<Rightarrow> jsstring option" where
  "or_undefined d = (case d of None \<Rightarrow> None | Some s \<Rightarrow> if s = [] then None else Some s)"

text \<open>
  The chain of \<^verbatim>\<open>instanceof\<close> tests that sets \<^verbatim>\<open>typeKind\<close>. Its last branch,
  \<^verbatim>\<open>'UNKNOWN'\<close>, is for a value of none of the six classes; the values of a type map are
  of these classes, so \<^typ>\<open>TypeClass\<close> has no seventh case and the branch is not reached.
\<close>

fun typeKindOf :: "TypeClass \<Rightarrow> jsstring" where
  "typeKindOf (GraphQLObjectType fs) = js ''OBJECT''"
| "typeKindOf (GraphQLInterfaceType fs) = js ''INTERFACE''"
| "typeKindOf (GraphQLUnionType ts) = js ''UNION''"
| "typeKindOf (GraphQLEnumType vs) = js ''ENUM''"
| "typeKindOf (GraphQLInputObjectType fs) = js ''INPUT_OBJECT''"
| "typeKindOf GraphQLScalarType = js ''SCALAR''"

definition typeElement :: "jsstring \<Rightarrow> GraphQLNamedType \<Rightarrow> SearchableElement" where
  "typeElement typeName t =
     \<lparr> elementType = TypeElement, name = typeName, parentType = None,
       description = or_undefined (type_description t), path = typeName,
       typeKind = Some (typeKindOf (type_shape t)), returnType = None, args = None \<rparr>"

definition fieldArgs :: "GraphQLField \<Rightarrow> ArgInfo list" where
  "fieldArgs field =
     map (\<lambda>arg. \<lparr> ai_name = arg_name arg, ai_type = printGraphQLType (arg_type arg),
                  ai_description = or_undefined (arg_description arg) \<rparr>) (field_args field)"

definition fieldElement :: "jsstring \<Rightarrow> jsstring \<Rightarrow> GraphQLField \<Rightarrow> SearchableElement" where
  "fieldElement typeName fieldName field =
     \<lparr> elementType = FieldElement, name = fieldName, parentType = Some typeName,
       description = or_undefined (field_description field),
       path = typeName @ js ''.'' @ fieldName,
       typeKind = None, returnType = Some (printGraphQLType (field_type field)),
       args = Some (fieldArgs field) \<rparr>"

definition fieldArgElement :: "jsstring \<Rightarrow> jsstring \<Rightarrow> GraphQLArgument \<Rightarrow> SearchableElement" where
  "fieldArgElement typeName fieldName arg =
     \<lparr> elementType = ArgumentElement, name = arg_name arg,
       parentType = Some (typeName @ js ''.'' @ fieldName),
       description = or_undefined (arg_description arg),
       path = typeName @ js ''.'' @ fieldName @ js ''('' @ arg_name arg @ js '')'',
       typeKind = None, returnType = None, args = None \<rparr>"

definition inputFieldElement :: "jsstring \<Rightarrow> jsstring \<Rightarrow> GraphQLInputField \<Rightarrow> SearchableElement" where
  "inputFieldElement typeName fieldName field =
     \<lparr> elementType = FieldElement, name = fieldName, parentType = Some typeName,
       description = or_undefined (ifield_description field),
       path = typeName @ js ''.'' @ fieldName,
       typeKind = None, returnType = None, args = None \<rparr>"

definition directiveElement :: "GraphQLDirective \<Rightarrow> SearchableElement" where
  "directiveElement directive =
     \<lparr> elementType = DirectiveElement, name = directive_name directive, parentType = None,
       description = or_undefined (directive_description directive),
       path = js ''@'' @ directive_name directive,
       typeKind = None, returnType = None, args = None \<rparr>"

definition directiveArgElement :: "GraphQLDirective \<Rightarrow> GraphQLArgument \<Rightarrow> SearchableElement" where
  "directiveArgElement directive arg =
     \<lparr> elementType = ArgumentElement, name = arg_name arg,
       parentType = Some (js ''@'' @ directive_name directive),
       description = or_undefined (arg_description arg),
       path = js ''@'' @ directive_name directive @ js ''('' @ arg_name arg @ js '')'',
       typeKind = None, returnType = None, args = None \<rparr>"

text \<open>
  The loops of \<^verbatim>\<open>collectSearchableElements\<close>. The array \<^verbatim>\<open>elements\<close> is the state: each
  loop body takes it and returns it with the pushed records appended, and \<open>fold\<close> runs the
  body over the entries in order.
\<close>

definition push :: "SearchableElement \<Rightarrow> SearchableElement list \<Rightarrow> SearchableElement list" where
  "push e elements = elements @ [e]"

definition collectField ::
  "jsstring \<Rightarrow> jsstring \<times> GraphQLField \<Rightarrow> SearchableElement list \<Rightarrow> SearchableElement list" where
  "collectField typeName entry elements =
     (case entry of (fieldName, field) \<Rightarrow>
        fold (\<lambda>arg. push (fieldArgElement typeName fieldName arg)) (field_args field)
          (push (fieldElement typeName fieldName field) elements))"

definition collectInputField ::
  "jsstring \<Rightarrow> jsstring \<times> GraphQLInputField \<Rightarrow> SearchableElement list \<Rightarrow> SearchableElement list" where
  "collectInputField typeName entry elements =
     (case entry of (fieldName, field) \<Rightarrow> push (inputFieldElement typeName fieldName field) elements)"

definition collectType ::
  "jsstring \<times> GraphQLNamedType \<Rightarrow> SearchableElement list \<Rightarrow> SearchableElement list" where
  "collectType entry elements =
     (case entry of (typeName, t) \<Rightarrow>
        if startsWith typeName (js ''__'') then elements
        else
          let elements1 = push (typeElement typeName t) elements;
              elements2 =
                (case type_shape t of
                   GraphQLObjectType fs \<Rightarrow> fold (collectField typeName) fs elements1
                 | GraphQLInterfaceType fs \<Rightarrow> fold (collectField typeName) fs elements1
                 | _ \<Rightarrow> elements1)
          in (case type_shape t of
                GraphQLInputObjectType fs \<Rightarrow> fold (collectInputField typeName) fs elements2
              | _ \<Rightarrow> elements2))"

definition collectDirective ::
  "GraphQLDirective \<Rightarrow> SearchableElement list \<Rightarrow> SearchableElement list" where
  "collectDirective directive elements =
     fold (\<lambda>arg. push (directiveArgElement directive arg)) (directive_args directive)
       (push (directiveElement directive) elements)"

definition collectSearchableElements :: "GraphQLSchema \<Rightarrow> SearchableElement list" where
  "collectSearchableElements schema =
     fold collectDirective (directives schema) (fold collectType (typeMap schema) [])"

section \<open>Keyword Matcher\<close>

definition keywordsOf :: "jsstring \<Rightarrow> jsstring list" where
  "keywordsOf query = filter (\<lambda>k. length k > 0) (split_ws (toLowerCase query))"

text \<open>
  \<^verbatim>\<open>element.description || ''\<close> is the empty string for an absent and for an empty
  description.
\<close>

definition searchableText :: "SearchableElement \<Rightarrow> jsstring" where
  "searchableText element =
     toLowerCase (name element @ js '' '' @
       (case description element of None \<Rightarrow> [] | Some d \<Rightarrow> d))"

definition searchSchemaElements :: "SearchableElement list \<Rightarrow> jsstring \<Rightarrow> SearchableElement list" where
  "searchSchemaElements elements query =
     (if length (keywordsOf query) = 0 then []
      else filter (\<lambda>element. list_all (\<lambda>keyword. includes_str (searchableText element) keyword)
                                (keywordsOf query)) elements)"

section \<open>Path Resolver\<close>

record FieldDetail =
  fd_name :: jsstring
  fd_type :: jsstring
  fd_description :: "jsstring option"
  fd_args :: "ArgInfo list option"

record EnumValueDetail =
  vd_name :: jsstring
  vd_description :: "jsstring option"

text \<open>
  The object that \<^verbatim>\<open>getElementDetails\<close> returns (typed \<^verbatim>\<open>any\<close> in the source): the
  three keys every branch sets, and every other key as an \<open>option\<close>, \<open>None\<close> when the
  branch does not set it.
\<close>

record ElementDetails =
  d_elementType :: ElementType
  d_name :: jsstring
  d_description :: "jsstring option"
  d_parentType :: "jsstring option"
  d_type :: "jsstring option"
  d_args :: "ArgInfo list option"
  d_kind :: "jsstring option"
  d_fields :: "FieldDetail list option"
  d_possibleTypes :: "jsstring list option"
  d_values :: "EnumValueDetail list option"

definition argDetails :: "GraphQLArgument list \<Rightarrow> ArgInfo list" where
  "argDetails as =
     map (\<lambda>arg. \<lparr> ai_name = arg_name arg, ai_type = printGraphQLType (arg_type arg),
                  ai_description = arg_description arg \<rparr>) as"

definition directiveDetails :: "GraphQLDirective \<Rightarrow> ElementDetails" where
  "directiveDetails directive =
     \<lparr> d_elementType = DirectiveElement, d_name = directive_name directive,
       d_description = directive_description directive, d_parentType = None, d_type = None,
       d_args = Some (argDetails (directive_args directive)),
       d_kind = None, d_fields = None, d_possibleTypes = None, d_values = None \<rparr>"

definition objectFieldDetail :: "GraphQLField \<Rightarrow> FieldDetail" where
  "objectFieldDetail field =
     \<lparr> fd_name = field_name field, fd_type = printGraphQLType (field_type field),
       fd_description = field_description field,
       fd_args = Some (argDetails (field_args field)) \<rparr>"

definition inputFieldDetail :: "GraphQLInputField \<Rightarrow> FieldDetail" where
  "inputFieldDetail field =
     \<lparr> fd_name = ifield_name field, fd_type = printGraphQLType (ifield_type field),
       fd_description = ifield_description field, fd_args = None \<rparr>"

text \<open>
  The type branch: the three common keys, then the keys of the class of the type. As in
  the collector, the case of a value of none of the six classes does not arise.
\<close>

definition typeDetails :: "GraphQLNamedType \<Rightarrow> ElementDetails" where
  "typeDetails t =
     (let details =
            \<lparr> d_elementType = TypeElement, d_name = type_name t,
              d_description = type_description t, d_parentType = None, d_type = None,
              d_args = None, d_kind = None, d_fields = None, d_possibleTypes = None,
              d_values = None \<rparr>
      in case type_shape t of
           GraphQLObjectType fs \<Rightarrow>
             details \<lparr> d_kind := Some (js ''OBJECT''),
                       d_fields := Some (map objectFieldDetail (map snd fs)) \<rparr>
         | GraphQLInterfaceType fs \<Rightarrow>
             details \<lparr> d_kind := Some (js ''INTERFACE''),
                       d_fields := Some (map objectFieldDetail (map snd fs)) \<rparr>
         | GraphQLUnionType ts \<Rightarrow>
             details \<lparr> d_kind := Some (js ''UNION''), d_possibleTypes := Some ts \<rparr>
         | GraphQLEnumType vs \<Rightarrow>
             details \<lparr> d_kind := Some (js ''ENUM''),
                       d_values := Some (map (\<lambda>v. \<lparr> vd_name = value_name v,
                                                       vd_description = value_description v \<rparr>) vs) \<rparr>
         | GraphQLInputObjectType fs \<Rightarrow>
             details \<lparr> d_kind := Some (js ''INPUT_OBJECT''),
                       d_fields := Some (map inputFieldDetail (map snd fs)) \<rparr>
         | GraphQLScalarType \<Rightarrow> details \<lparr> d_kind := Some (js ''SCALAR'') \<rparr>)"

definition fieldDetails :: "jsstring \<Rightarrow> GraphQLField \<Rightarrow> ElementDetails" where
  "fieldDetails typeName field =
     \<lparr> d_elementType = FieldElement, d_name = field_name field,
       d_description = field_description field, d_parentType = Some typeName,
       d_type = Some (printGraphQLType (field_type field)),
       d_args = Some (argDetails (field_args field)),
       d_kind = None, d_fields = None, d_possibleTypes = None, d_values = None \<rparr>"

text \<open>
  \<^verbatim>\<open>getElementDetails\<close>; \<open>None\<close> is the \<^verbatim>\<open>null\<close> it returns. The outer case is the test
  of \<^verbatim>\<open>parts.length\<close>, and \<^verbatim>\<open>type.getFields()[fieldName]\<close> is the lookup in the entries.
\<close>

definition getElementDetails :: "jsstring \<Rightarrow> GraphQLSchema \<Rightarrow> ElementDetails option" where
  "getElementDetails p schema =
     (case split_dot p of
        [nm] \<Rightarrow>
          if startsWith nm (js ''@'') then
            (case getDirective schema (drop 1 nm) of
               None \<Rightarrow> None
             | Some directive \<Rightarrow> Some (directiveDetails directive))
          else
            (case getType schema nm of
               None \<Rightarrow> None
             | Some t \<Rightarrow> Some (typeDetails t))
      | [typeName, fieldName] \<Rightarrow>
          (case getType schema typeName of
             None \<Rightarrow> None
           | Some t \<Rightarrow>
               (case type_shape t of
                  GraphQLObjectType fs \<Rightarrow>
                    (case map_of fs fieldName of
                       None \<Rightarrow> None
                     | Some field \<Rightarrow> Some (fieldDetails typeName field))
                | GraphQLInterfaceType fs \<Rightarrow>
                    (case map_of fs fieldName of
                       None \<Rightarrow> None
                     | Some field \<Rightarrow> Some (fieldDetails typeName field))
                | _ \<Rightarrow> None))
      | _ \<Rightarrow> None)"

section \<open>The specified behaviour\<close>

text \<open>
  The collected list as the specification describes it: the records of one field, of one
  type, of one directive, and their concatenation in graph order with the meta types
  left out.
\<close>

definition fieldRecords :: "jsstring \<Rightarrow> jsstring \<times> GraphQLField \<Rightarrow> SearchableElement list" where
  "fieldRecords typeName entry =
     (case entry of (fieldName, field) \<Rightarrow>
        fieldElement typeName fieldName field #
        map (fieldArgElement typeName fieldName) (field_args field))"

definition typeRecords :: "jsstring \<times> GraphQLNamedType \<Rightarrow> SearchableElement list" where
  "typeRecords entry =
     (case entry of (typeName, t) \<Rightarrow>
        typeElement typeName t #
        (case type_shape t of
           GraphQLObjectType fs \<Rightarrow> concat (map (fieldRecords typeName) fs)
         | GraphQLInterfaceType fs \<Rightarrow> concat (map (fieldRecords typeName) fs)
         | GraphQLInputObjectType fs \<Rightarrow>
             map (\<lambda>(fieldName, field). inputFieldElement typeName fieldName field) fs
         | _ \<Rightarrow> []))"

definition directiveRecords :: "GraphQLDirective \<Rightarrow> SearchableElement list" where
  "directiveRecords directive =
     directiveElement directive # map (directiveArgElement directive) (directive_args directive)"

definition isMetaName :: "jsstring \<Rightarrow> bool" where
  "isMetaName typeName = startsWith typeName (js ''__'')"

definition withoutMetaTypes :: "GraphQLSchema \<Rightarrow> GraphQLSchema" where
  "withoutMetaTypes schema =
     schema \<lparr> typeMap := filter (\<lambda>(typeName, t). \<not> isMetaName typeName) (typeMap schema) \<rparr>"

definition specifiedOrder :: "GraphQLSchema \<Rightarrow> SearchableElement list" where
  "specifiedOrder schema =
     concat (map typeRecords (typeMap (withoutMetaTypes schema)))
     @ concat (map directiveRecords (directives schema))"

text \<open>
  The tokens of a query as the specification describes them: split on runs of white space,
  lowercase each token, discard the empty ones. The raw tokens are the same without the
  lowercasing. The lowercased tokens are those of the lowercased query: lowercase the
  query, split on runs of white space, discard the empty pieces.
\<close>

definition rawTokens :: "jsstring \<Rightarrow> jsstring list" where
  "rawTokens query = filter (\<lambda>t. t \<noteq> []) (split_ws query)"

definition specifiedTokens :: "jsstring \<Rightarrow> jsstring list" where
  "specifiedTokens query = filter (\<lambda>t. t \<noteq> []) (map toLowerCase (split_ws query))"

definition lowercasedTokens :: "jsstring \<Rightarrow> jsstring list" where
  "lowercasedTokens query = filter (\<lambda>t. t \<noteq> []) (split_ws (toLowerCase query))"

definition isSubstring :: "jsstring \<Rightarrow> jsstring \<Rightarrow> bool" where
  "isSubstring k text = (\<exists>pre suf. text = pre @ k @ suf)"

definition specifiedText :: "SearchableElement \<Rightarrow> jsstring" where
  "specifiedText e =
     toLowerCase (name e @ js '' '' @ (case description e of None \<Rightarrow> [] | Some d \<Rightarrow> d))"

definition matchesAll :: "jsstring list \<Rightarrow> SearchableElement \<Rightarrow> bool" where
  "matchesAll tokens e = (\<forall>t \<in> set tokens. isSubstring t (specifiedText e))"

text \<open>The number of dots of a path, and the two sides of its first dot.\<close>

definition dotCount :: "jsstring \<Rightarrow> nat" where
  "dotCount p = count_list p dot"

definition beforeDot :: "jsstring \<Rightarrow> jsstring" where
  "beforeDot p = takeWhile (\<lambda>c. c \<noteq> dot) p"

definition afterDot :: "jsstring \<Rightarrow> jsstring" where
  "afterDot p = drop 1 (dropWhile (\<lambda>c. c \<noteq> dot) p)"

text \<open>
  The field named \<open>fieldName\<close> of the type named \<open>typeName\<close>, when that type is in the
  graph's type map and is an object or interface type that has the field.
\<close>

definition outputFields :: "GraphQLNamedType \<Rightarrow> (jsstring \<times> GraphQLField) list option" where
  "outputFields t =
     (case type_shape t of
        GraphQLObjectType fs \<Rightarrow> Some fs
      | GraphQLInterfaceType fs \<Rightarrow> Some fs
      | _ \<Rightarrow> None)"

definition lookupField :: "GraphQLSchema \<Rightarrow> jsstring \<Rightarrow> jsstring \<Rightarrow> GraphQLField option" where
  "lookupField schema typeName fieldName =
     (case getType schema typeName of
        None \<Rightarrow> None
      | Some t \<Rightarrow>
          (case outputFields t of
             None \<Rightarrow> None
           | Some fs \<Rightarrow> map_of fs fieldName))"

text \<open>
  What a graph built by the schema library satisfies: the type map and the field maps are
  objects, with one entry per key; every entry is keyed by the name of its type or field;
  and no name holds a dot or starts with an at sign (names are letters, digits and
  underscores).
\<close>

definition wellFormedFields :: "(jsstring \<times> GraphQLField) list \<Rightarrow> bool" where
  "wellFormedFields fs =
     (distinct (map fst fs)
      \<and> list_all (\<lambda>(fieldName, field). field_name field = fieldName \<and> dot \<notin> set fieldName) fs)"

definition wellFormedType :: "jsstring \<times> GraphQLNamedType \<Rightarrow> bool" where
  "wellFormedType entry =
     (case entry of (typeName, t) \<Rightarrow>
        type_name t = typeName \<and> dot \<notin> set typeName \<and> \<not> startsWith typeName (js ''@'')
        \<and> (case outputFields t of None \<Rightarrow> True | Some fs \<Rightarrow> wellFormedFields fs))"

definition wellFormedSchema :: "GraphQLSchema \<Rightarrow> bool" where
  "wellFormedSchema schema =
     (distinct (map fst (typeMap schema))
      \<and> list_all wellFormedType (typeMap schema)
      \<and> list_all (\<lambda>d. dot \<notin> set (directive_name d)) (directives schema))"

section \<open>An example graph\<close>

text \<open>
  \<^verbatim>\<open>
  type Query { user(id: ID!): User }
  type User { id: ID!  name: String }
  input UserInput { name: String }
  directive @deprecated(reason: String)
  \<close>
  with the scalars \<^verbatim>\<open>ID\<close> and \<^verbatim>\<open>String\<close> and the introspection type \<^verbatim>\<open>__Schema\<close>.
\<close>

definition idArgument :: GraphQLArgument where
  "idArgument =
     \<lparr> arg_name = js ''id'', arg_type = GraphQLNonNull (Named (js ''ID'')), arg_description = None \<rparr>"

definition reasonArgument :: GraphQLArgument where
  "reasonArgument =
     \<lparr> arg_name = js ''reason'', arg_type = Named (js ''String''), arg_description = None \<rparr>"

definition userField :: GraphQLField where
  "userField =
     \<lparr> field_name = js ''user'', field_type = Named (js ''User''),
       field_description = Some (js ''Find a user''), field_args = [idArgument] \<rparr>"

definition idField :: GraphQLField where
  "idField =
     \<lparr> field_name = js ''id'', field_type = GraphQLNonNull (Named (js ''ID'')),
       field_description = None, field_args = [] \<rparr>"

definition nameField :: GraphQLField where
  "nameField =
     \<lparr> field_name = js ''name'', field_type = Named (js ''String''),
       field_description = None, field_args = [] \<rparr>"

definition typesField :: GraphQLField where
  "typesField =
     \<lparr> field_name = js ''types'', field_type = GraphQLList (Named (js ''__Type'')),
       field_description = None, field_args = [] \<rparr>"

definition nameInputField :: GraphQLInputField where
  "nameInputField =
     \<lparr> ifield_name = js ''name'', ifield_type = Named (js ''String''), ifield_description = None \<rparr>"

definition queryType :: GraphQLNamedType where
  "queryType =
     \<lparr> type_name = js ''Query'', type_description = None,
       type_shape = GraphQLObjectType [(js ''user'', userField)] \<rparr>"

definition userType :: GraphQLNamedType where
  "userType =
     \<lparr> type_name = js ''User'', type_description = Some (js ''An active account''),
       type_shape = GraphQLObjectType [(js ''id'', idField), (js ''name'', nameField)] \<rparr>"

definition userInputType :: GraphQLNamedType where
  "userInputType =
     \<lparr> type_name = js ''UserInput'', type_description = None,
       type_shape = GraphQLInputObjectType [(js ''name'', nameInputField)] \<rparr>"

definition idType :: GraphQLNamedType where
  "idType = \<lparr> type_name = js ''ID'', type_description = None, type_shape = GraphQLScalarType \<rparr>"

definition stringType :: GraphQLNamedType where
  "stringType =
     \<lparr> type_name = js ''String'', type_description = None, type_shape = GraphQLScalarType \<rparr>"

definition schemaMetaType :: GraphQLNamedType where
  "schemaMetaType =
     \<lparr> type_name = js ''__Schema'', type_description = None,
       type_shape = GraphQLObjectType [(js ''types'', typesField)] \<rparr>"

definition deprecatedDirective :: GraphQLDirective where
  "deprecatedDirective =
     \<lparr> directive_name = js ''deprecated'', directive_description = None,
       directive_args = [reasonArgument] \<rparr>"

definition exampleSchema :: GraphQLSchema where
  "exampleSchema =
     \<lparr> typeMap = [(js ''Query'', queryType), (js ''User'', userType), (js ''UserInput'', userInputType),
                  (js ''ID'', idType), (js ''String'', stringType), (js ''__Schema'', schemaMetaType)],
       directives = [deprecatedDirective] \<rparr>"

text \<open>
  A scalar type \<^verbatim>\<open>T\<close> whose description is two Greek words, small alpha with final
  small sigma (U+03B1 U+03C2) and small beta (U+03B2), and two queries in capital letters:
  alpha sigma, U+FEFF, beta; and beta, U+FEFF, alpha sigma.
\<close>

definition greekType :: GraphQLNamedType where
  "greekType =
     \<lparr> type_name = js ''T'', type_description = Some [0x3B1, 0x3C2, 0x20, 0x3B2],
       type_shape = GraphQLScalarType \<rparr>"

definition sigmaFirstQuery :: jsstring where
  "sigmaFirstQuery = [0x391, 0x3A3, 0xFEFF, 0x392]"

definition sigmaLastQuery :: jsstring where
  "sigmaLastQuery = [0x392, 0xFEFF, 0x391, 0x3A3]"

section \<open>Properties of the Type Printer\<close>

text \<open>
  Claim C6. The Type Printer is a total function on type references (every reference is a
  finite nesting of wrappers around a named type). On a non-null wrapper around \<open>r\<close> it
  returns the print of \<open>r\<close> followed by an exclamation mark, on a list wrapper around \<open>r\<close>
  the print of \<open>r\<close> between square brackets, and on a named type the name unchanged.
\<close>

theorem printGraphQLType_shapes:
  "printGraphQLType (GraphQLNonNull r) = printGraphQLType r @ js ''!''
   \<and> printGraphQLType (GraphQLList r) = js ''['' @ printGraphQLType r @ js '']''
   \<and> printGraphQLType (Named n) = n"
  by simp

section \<open>Auxiliary facts on strings\<close>

lemma js_dot: "js ''.'' = [dot]"
  by (simp add: js_def dot_def)

lemma split_dot_not_Nil: "split_dot s \<noteq> []"
  by (induction s) auto

lemma length_split_dot: "length (split_dot s) = Suc (count_list s dot)"
  by (induction s) (auto simp: split_dot_not_Nil)

lemma split_dot_no_dot: "dot \<notin> set s \<Longrightarrow> split_dot s = [s]"
  by (induction s) auto

lemma split_dot_decompose:
  "split_dot s = takeWhile (\<lambda>c. c \<noteq> dot) s #
     (case dropWhile (\<lambda>c. c \<noteq> dot) s of [] \<Rightarrow> [] | _ # r \<Rightarrow> split_dot r)"
  by (induction s) (auto simp: split_dot_not_Nil split: list.splits)

lemma split_ws_not_Nil: "split_ws s \<noteq> []"
  by (induction s rule: split_ws.induct) auto

lemma split_ws_all_space:
  "\<forall>c\<in>set q. isWhiteSpace c \<Longrightarrow> \<forall>t\<in>set (split_ws q). t = []"
proof (cases q)
  case Nil
  then show ?thesis by simp
next
  case (Cons a cs)
  assume a: "\<forall>c\<in>set q. isWhiteSpace c"
  with Cons have d: "dropWhile isWhiteSpace cs = []" by simp
  from a Cons show ?thesis by (simp add: d)
qed

lemma includes_str_iff: "includes_str t k \<longleftrightarrow> (\<exists>pre suf. t = pre @ k @ suf)"
proof (induction t)
  case Nil
  show ?case by auto
next
  case (Cons c cs)
  show ?case
  proof
    assume "includes_str (c # cs) k"
    then consider "prefix k (c # cs)" | "includes_str cs k" by auto
    then show "\<exists>pre suf. c # cs = pre @ k @ suf"
    proof cases
      case 1
      then obtain suf where "c # cs = k @ suf" by (auto simp: prefix_def)
      then have "c # cs = [] @ k @ suf" by simp
      then show ?thesis by blast
    next
      case 2
      with Cons obtain pre suf where "cs = pre @ k @ suf" by blast
      then have "c # cs = (c # pre) @ k @ suf" by simp
      then show ?thesis by blast
    qed
  next
    assume "\<exists>pre suf. c # cs = pre @ k @ suf"
    then obtain pre suf where e: "c # cs = pre @ k @ suf" by blast
    show "includes_str (c # cs) k"
    proof (cases pre)
      case Nil
      with e have "prefix k (c # cs)" by (simp add: prefix_def)
      then show ?thesis by simp
    next
      case (Cons a pre')
      with e have "cs = pre' @ k @ suf" by simp
      with Cons.IH show ?thesis by auto
    qed
  qed
qed

text \<open>White space is not touched by the lowercasing.\<close>

lemma lowerUnit_whitespace: "isWhiteSpace c \<Longrightarrow> lowerUnit c = c \<and> c \<noteq> 0x3A3"
  by (auto simp: isWhiteSpace_def lowerUnit_def)

lemma lowerFrom_whitespace: "\<forall>c\<in>set s. isWhiteSpace c \<Longrightarrow> lowerFrom before s = s"
  by (induction s arbitrary: before) (simp_all add: lowerUnit_whitespace)

lemma toLowerCase_whitespace: "\<forall>c\<in>set s. isWhiteSpace c \<Longrightarrow> toLowerCase s = s"
  by (simp add: toLowerCase_def lowerFrom_whitespace)

section \<open>Auxiliary facts on the collector\<close>

lemma fold_push: "fold (\<lambda>x. push (f x)) xs acc = acc @ map f xs"
  by (induction xs arbitrary: acc) (auto simp: push_def)

lemma collectField_eq: "collectField typeName entry acc = acc @ fieldRecords typeName entry"
  by (cases entry) (simp add: collectField_def fieldRecords_def fold_push push_def)

lemma fold_collectField:
  "fold (collectField typeName) fs acc = acc @ concat (map (fieldRecords typeName) fs)"
  by (induction fs arbitrary: acc) (auto simp: collectField_eq)

lemma fold_collectInputField:
  "fold (collectInputField typeName) fs acc =
     acc @ map (\<lambda>(fieldName, field). inputFieldElement typeName fieldName field) fs"
  by (induction fs arbitrary: acc) (auto simp: collectInputField_def push_def)

lemma collectType_eq:
  "collectType (typeName, t) acc =
     (if isMetaName typeName then acc else acc @ typeRecords (typeName, t))"
  by (cases "type_shape t")
    (simp_all add: collectType_def typeRecords_def isMetaName_def Let_def push_def
      fold_collectField fold_collectInputField)

lemma fold_collectType:
  "fold collectType tm acc =
     acc @ concat (map typeRecords (filter (\<lambda>(typeName, t). \<not> isMetaName typeName) tm))"
proof (induction tm arbitrary: acc)
  case Nil
  show ?case by simp
next
  case (Cons entry tm)
  obtain typeName t where e: "entry = (typeName, t)" by (cases entry)
  show ?case by (simp add: e Cons.IH collectType_eq)
qed

lemma collectDirective_eq: "collectDirective d acc = acc @ directiveRecords d"
  by (simp add: collectDirective_def directiveRecords_def fold_push push_def)

lemma fold_collectDirective:
  "fold collectDirective ds acc = acc @ concat (map directiveRecords ds)"
  by (induction ds arbitrary: acc) (auto simp: collectDirective_eq)

lemma collect_unfold:
  "collectSearchableElements schema =
     concat (map typeRecords (filter (\<lambda>(typeName, t). \<not> isMetaName typeName) (typeMap schema)))
     @ concat (map directiveRecords (directives schema))"
  by (simp add: collectSearchableElements_def fold_collectType fold_collectDirective)

section \<open>Properties of the Element Collector\<close>

text \<open>
  Claim C4. For every graph the collected list is, in this order: for each entry of the type
  map in iteration order, meta types skipped, the type record, then for each field of the
  type the field record followed at once by one argument record per argument of the field,
  in order; after all types, each directive record followed at once by one argument record
  per argument of the directive, in order.
\<close>

theorem collectSearchableElements_order:
  "collectSearchableElements schema = specifiedOrder schema"
  by (simp add: collect_unfold specifiedOrder_def withoutMetaTypes_def)

theorem collectSearchableElements_order_witness:
  "collectSearchableElements exampleSchema =
   [typeElement (js ''Query'') queryType,
    fieldElement (js ''Query'') (js ''user'') userField,
    fieldArgElement (js ''Query'') (js ''user'') idArgument,
    typeElement (js ''User'') userType,
    fieldElement (js ''User'') (js ''id'') idField,
    fieldElement (js ''User'') (js ''name'') nameField,
    typeElement (js ''UserInput'') userInputType,
    inputFieldElement (js ''UserInput'') (js ''name'') nameInputField,
    typeElement (js ''ID'') idType,
    typeElement (js ''String'') stringType,
    directiveElement deprecatedDirective,
    directiveArgElement deprecatedDirective reasonArgument]"
  using collectSearchableElements_order [of exampleSchema]
  by (simp add: specifiedOrder_def withoutMetaTypes_def typeRecords_def fieldRecords_def
      directiveRecords_def isMetaName_def startsWith_def exampleSchema_def queryType_def
      userType_def userInputType_def idType_def stringType_def schemaMetaType_def
      deprecatedDirective_def userField_def idField_def nameField_def js_def)

section \<open>Auxiliary facts on the matcher\<close>

lemma keywordsOf_eq: "keywordsOf q = lowercasedTokens q"
  by (simp add: keywordsOf_def lowercasedTokens_def)

lemma searchableText_eq: "searchableText e = specifiedText e"
  by (simp add: searchableText_def specifiedText_def)

lemma list_all_includes:
  "list_all (\<lambda>keyword. includes_str (searchableText e) keyword) ks = matchesAll ks e"
  by (simp add: list_all_iff matchesAll_def isSubstring_def includes_str_iff searchableText_eq)

lemma search_unfold:
  "searchSchemaElements es q =
     (if keywordsOf q = [] then [] else filter (matchesAll (keywordsOf q)) es)"
  by (simp add: searchSchemaElements_def list_all_includes)

lemma matchesAll_includes:
  "matchesAll ks e = list_all (\<lambda>keyword. includes_str (searchableText e) keyword) ks"
  by (simp add: list_all_includes)

lemma rawTokens_blank: "\<forall>c\<in>set q. isWhiteSpace c \<Longrightarrow> rawTokens q = []"
  using split_ws_all_space [of q] by (auto simp: rawTokens_def filter_empty_conv)

lemma keywordsOf_blank: "\<forall>c\<in>set q. isWhiteSpace c \<Longrightarrow> keywordsOf q = []"
  using split_ws_all_space [of q]
  by (auto simp: keywordsOf_def toLowerCase_whitespace filter_empty_conv)

text \<open>
  The two Greek queries. In the first the sigma is followed by U+FEFF, which is white
  space and case-ignorable, and then by a cased letter: it is not final. In the second
  it ends the string: it is final.
\<close>

lemma toLowerCase_sigmaFirstQuery:
  "toLowerCase sigmaFirstQuery = [0x3B1, 0x3C3, 0xFEFF, 0x3B2]"
  by (simp add: toLowerCase_def sigmaFirstQuery_def lowerUnit_def isCased_def
      isCaseIgnorable_def)

lemma toLowerCase_sigmaLastQuery:
  "toLowerCase sigmaLastQuery = [0x3B2, 0xFEFF, 0x3B1, 0x3C2]"
  by (simp add: toLowerCase_def sigmaLastQuery_def lowerUnit_def isCased_def
      isCaseIgnorable_def)

lemma keywordsOf_sigmaFirstQuery: "keywordsOf sigmaFirstQuery = [[0x3B1, 0x3C3], [0x3B2]]"
  by (simp add: keywordsOf_def toLowerCase_sigmaFirstQuery isWhiteSpace_def)

lemma keywordsOf_sigmaLastQuery: "keywordsOf sigmaLastQuery = [[0x3B2], [0x3B1, 0x3C2]]"
  by (simp add: keywordsOf_def toLowerCase_sigmaLastQuery isWhiteSpace_def)

lemma rawTokens_sigmaFirstQuery: "rawTokens sigmaFirstQuery = [[0x391, 0x3A3], [0x392]]"
  by (simp add: rawTokens_def sigmaFirstQuery_def isWhiteSpace_def)

lemma rawTokens_sigmaLastQuery: "rawTokens sigmaLastQuery = [[0x392], [0x391, 0x3A3]]"
  by (simp add: rawTokens_def sigmaLastQuery_def isWhiteSpace_def)

lemma specifiedTokens_sigmaFirstQuery:
  "specifiedTokens sigmaFirstQuery = [[0x3B1, 0x3C2], [0x3B2]]"
  by (simp add: specifiedTokens_def sigmaFirstQuery_def isWhiteSpace_def toLowerCase_def
      lowerUnit_def isCased_def isCaseIgnorable_def)

lemma searchableText_greek:
  "searchableText (typeElement (js ''T'') greekType) = [0x74, 0x20, 0x3B1, 0x3C2, 0x20, 0x3B2]"
  by (simp add: searchableText_def typeElement_def greekType_def or_undefined_def js_def
      toLowerCase_def lowerUnit_def)

lemma search_sigmaFirstQuery:
  "searchSchemaElements [typeElement (js ''T'') greekType] sigmaFirstQuery = []"
  by (simp add: searchSchemaElements_def keywordsOf_sigmaFirstQuery searchableText_greek)

lemma search_sigmaLastQuery:
  "searchSchemaElements [typeElement (js ''T'') greekType] sigmaLastQuery
     = [typeElement (js ''T'') greekType]"
  by (simp add: searchSchemaElements_def keywordsOf_sigmaLastQuery searchableText_greek)

section \<open>Properties of the Keyword Matcher\<close>

text \<open>
  Claim C2, as stated: for every element list and every query, the search returns exactly
  the elements, in their order, whose lowercased text (name, one space, description or the
  empty string) contains every token of the query, the tokens being the non-empty pieces of
  the query split on runs of white space, each lowercased. The statement fails twice. With
  the empty query every element contains every token, and the search returns none of them.
  And with the query capital alpha, capital sigma, U+FEFF, capital beta, the tokens
  lowercased one by one are alpha with a final sigma, and beta; a type whose description is
  these two words contains both, and the search does not return it, because the code
  lowercases the whole query before it splits it, and there the sigma is not final.
\<close>

theorem searchSchemaElements_filter_counterexample:
  "searchSchemaElements [typeElement (js ''User'') userType] (js '''')
     \<noteq> filter (matchesAll (specifiedTokens (js ''''))) [typeElement (js ''User'') userType]
   \<and> searchSchemaElements [typeElement (js ''T'') greekType] sigmaFirstQuery
     \<noteq> filter (matchesAll (specifiedTokens sigmaFirstQuery)) [typeElement (js ''T'') greekType]"
proof -
  have "searchSchemaElements [typeElement (js ''User'') userType] (js '''') = []"
    by (simp add: searchSchemaElements_def keywordsOf_def js_def toLowerCase_def)
  moreover have "filter (matchesAll (specifiedTokens (js ''''))) [typeElement (js ''User'') userType]
      = [typeElement (js ''User'') userType]"
    by (simp add: specifiedTokens_def js_def toLowerCase_def matchesAll_def)
  moreover have "matchesAll (specifiedTokens sigmaFirstQuery) (typeElement (js ''T'') greekType)"
    by (simp add: matchesAll_includes specifiedTokens_sigmaFirstQuery searchableText_greek)
  ultimately show ?thesis by (simp add: search_sigmaFirstQuery)
qed

text \<open>
  Claim C2, amended: the search lowercases the query, splits it on runs of white space and
  discards the empty pieces. When at least one token remains it returns exactly the
  elements of the input, in their original relative order, whose lowercased text (name, one
  space, description or the empty string) contains every token as a substring; when none
  remains it returns the empty list.
\<close>

theorem searchSchemaElements_filter:
  "searchSchemaElements elements query =
     (if lowercasedTokens query = [] then []
      else filter (matchesAll (lowercasedTokens query)) elements)"
  by (simp add: search_unfold keywordsOf_eq)

theorem searchSchemaElements_filter_witness:
  "lowercasedTokens (js ''D  i'') = [js ''d'', js ''i'']
   \<and> filter (matchesAll (lowercasedTokens (js ''D  i'')))
        [typeElement (js ''ID'') idType, typeElement (js ''String'') stringType]
      = [typeElement (js ''ID'') idType]"
proof -
  have t: "lowercasedTokens (js ''D  i'') = [js ''d'', js ''i'']"
    by (simp add: lowercasedTokens_def js_def isWhiteSpace_def toLowerCase_def lowerUnit_def)
  have k: "keywordsOf (js ''D  i'') = [js ''d'', js ''i'']"
    using t by (simp add: keywordsOf_eq)
  have s: "searchSchemaElements
             [typeElement (js ''ID'') idType, typeElement (js ''String'') stringType]
             (js ''D  i'') = [typeElement (js ''ID'') idType]"
    using k
    by (simp add: searchSchemaElements_def searchableText_def typeElement_def
        idType_def stringType_def or_undefined_def js_def toLowerCase_def lowerUnit_def)
  show ?thesis
    using searchSchemaElements_filter
      [of "[typeElement (js ''ID'') idType, typeElement (js ''String'') stringType]"
          "js ''D  i''"] s t
    by simp
qed

text \<open>
  Claim C7. A query that is empty or holds only white space has no usable token, and the
  search returns the empty list for it, whatever the element list.
\<close>

theorem searchSchemaElements_blank_query:
  "\<forall>c\<in>set query. isWhiteSpace c \<Longrightarrow>
     rawTokens query = [] \<and> searchSchemaElements elements query = []"
  by (simp add: rawTokens_blank search_unfold keywordsOf_blank)

theorem searchSchemaElements_blank_query_witness:
  "isWhiteSpace 0x20 \<and> isWhiteSpace 0x09
   \<and> rawTokens [0x20, 0x09, 0x20] = []
   \<and> searchSchemaElements [typeElement (js ''User'') userType] [0x20, 0x09, 0x20] = []"
proof -
  have h: "\<forall>c\<in>set [0x20, 0x09, 0x20]. isWhiteSpace c"
    by (simp add: isWhiteSpace_def)
  show ?thesis
    using h searchSchemaElements_blank_query
      [OF h, of "[typeElement (js ''User'') userType]"]
    by simp
qed

text \<open>
  Claim C8, as stated: two queries whose sequences of white-space separated tokens are
  permutations of each other give the same set of elements. The tokens of the two Greek
  queries are capital alpha with capital sigma, and capital beta, in the two orders. On
  the type whose description is alpha with a final sigma, then beta, the first query finds
  nothing (its sigma is lowercased to the non-final form) and the second finds the type.
\<close>

theorem searchSchemaElements_token_order_counterexample:
  "mset (rawTokens sigmaFirstQuery) = mset (rawTokens sigmaLastQuery)
   \<and> searchSchemaElements [typeElement (js ''T'') greekType] sigmaFirstQuery = []
   \<and> searchSchemaElements [typeElement (js ''T'') greekType] sigmaLastQuery
       = [typeElement (js ''T'') greekType]
   \<and> set (searchSchemaElements [typeElement (js ''T'') greekType] sigmaFirstQuery)
       \<noteq> set (searchSchemaElements [typeElement (js ''T'') greekType] sigmaLastQuery)"
  by (simp add: rawTokens_sigmaFirstQuery rawTokens_sigmaLastQuery search_sigmaFirstQuery
      search_sigmaLastQuery)

text \<open>
  Claim C8, amended: two queries whose lowercased forms have sequences of white-space
  separated tokens that are permutations of each other give the same search result on
  every element list (the same list, hence the same set of elements).
\<close>

theorem searchSchemaElements_token_order:
  "mset (lowercasedTokens q1) = mset (lowercasedTokens q2) \<Longrightarrow>
     searchSchemaElements elements q1 = searchSchemaElements elements q2"
proof -
  assume "mset (lowercasedTokens q1) = mset (lowercasedTokens q2)"
  then have "mset (keywordsOf q1) = mset (keywordsOf q2)"
    by (simp add: keywordsOf_eq)
  then have s: "set (keywordsOf q1) = set (keywordsOf q2)"
    by (rule mset_eq_setD)
  then have n: "keywordsOf q1 = [] \<longleftrightarrow> keywordsOf q2 = []"
    by (metis set_empty)
  have "matchesAll (keywordsOf q1) = matchesAll (keywordsOf q2)"
    using s by (auto simp: matchesAll_def fun_eq_iff)
  with n show ?thesis by (simp add: search_unfold)
qed

theorem searchSchemaElements_token_order_witness:
  "mset (lowercasedTokens (js ''User Active'')) = mset (lowercasedTokens (js ''active user''))
   \<and> searchSchemaElements
        [typeElement (js ''User'') userType, fieldElement (js ''User'') (js ''id'') idField]
        (js ''User Active'')
     = searchSchemaElements
        [typeElement (js ''User'') userType, fieldElement (js ''User'') (js ''id'') idField]
        (js ''active user'')"
proof -
  have a: "lowercasedTokens (js ''User Active'') = [js ''user'', js ''active'']"
    by (simp add: lowercasedTokens_def js_def isWhiteSpace_def toLowerCase_def lowerUnit_def)
  have b: "lowercasedTokens (js ''active user'') = [js ''active'', js ''user'']"
    by (simp add: lowercasedTokens_def js_def isWhiteSpace_def toLowerCase_def lowerUnit_def)
  have h: "mset (lowercasedTokens (js ''User Active''))
             = mset (lowercasedTokens (js ''active user''))"
    by (simp add: a b)
  show ?thesis using h searchSchemaElements_token_order [OF h] by simp
qed

section \<open>Auxiliary facts on paths and the resolver\<close>

lemma dotCount_0_iff: "dotCount p = 0 \<longleftrightarrow> dot \<notin> set p"
  by (simp add: dotCount_def count_list_0_iff)

lemma split_dot_zero: "dotCount p = 0 \<Longrightarrow> split_dot p = [p]"
  by (simp add: dotCount_0_iff split_dot_no_dot)

lemma count_dropWhile_dot:
  "count_list (dropWhile (\<lambda>c. c \<noteq> dot) p) dot = count_list p dot"
  by (induction p) auto

lemma dropWhile_dot_shape:
  "dropWhile (\<lambda>c. c \<noteq> dot) p = [] \<or>
   dropWhile (\<lambda>c. c \<noteq> dot) p = dot # afterDot p"
  by (induction p) (auto simp: afterDot_def)

lemma dropWhile_dot_Suc:
  assumes "dotCount p = Suc n"
  shows "dropWhile (\<lambda>c. c \<noteq> dot) p = dot # afterDot p"
proof -
  have "dropWhile (\<lambda>c. c \<noteq> dot) p \<noteq> []"
  proof
    assume e: "dropWhile (\<lambda>c. c \<noteq> dot) p = []"
    have "count_list (dropWhile (\<lambda>c. c \<noteq> dot) p) dot = Suc n"
      using assms by (simp only: count_dropWhile_dot dotCount_def)
    then show False by (simp only: e count_list.simps)
  qed
  with dropWhile_dot_shape [of p] show ?thesis by blast
qed

lemma dotCount_afterDot:
  assumes "dotCount p = Suc n"
  shows "dotCount (afterDot p) = n"
proof -
  have "count_list (dot # afterDot p) dot = Suc n"
    using assms count_dropWhile_dot [of p]
    by (simp only: dropWhile_dot_Suc [OF assms] dotCount_def)
  then show ?thesis by (simp add: dotCount_def js_def dot_def)
qed

lemma split_dot_Suc:
  assumes "dotCount p = Suc n"
  shows "split_dot p = beforeDot p # split_dot (afterDot p)"
proof -
  have "split_dot p = takeWhile (\<lambda>c. c \<noteq> dot) p #
     (case dot # afterDot p of [] \<Rightarrow> [] | _ # r \<Rightarrow> split_dot r)"
    using split_dot_decompose [of p] by (simp only: dropWhile_dot_Suc [OF assms])
  then show ?thesis by (simp add: beforeDot_def)
qed

lemma split_dot_one: "dotCount p = 1 \<Longrightarrow> split_dot p = [beforeDot p, afterDot p]"
  using split_dot_Suc [of p 0] dotCount_afterDot [of p 0] by (simp add: split_dot_zero)

lemma length_split_dot_dotCount: "length (split_dot p) = Suc (dotCount p)"
  by (simp add: length_split_dot dotCount_def)

lemma resolve_zero_dots:
  "dotCount p = 0 \<Longrightarrow>
     getElementDetails p schema =
       (if startsWith p (js ''@'') then map_option directiveDetails (getDirective schema (drop 1 p))
        else map_option typeDetails (getType schema p))"
  by (simp add: getElementDetails_def split_dot_zero split: option.splits)

lemma resolve_one_dot:
  "dotCount p = 1 \<Longrightarrow>
     getElementDetails p schema =
       map_option (fieldDetails (beforeDot p)) (lookupField schema (beforeDot p) (afterDot p))"
  by (simp add: getElementDetails_def split_dot_one lookupField_def outputFields_def
      split: option.splits TypeClass.splits)

lemma resolve_three_parts:
  assumes "3 \<le> length parts"
  shows "(case parts of [nm] \<Rightarrow> f nm | [typeName, fieldName] \<Rightarrow> g typeName fieldName
          | _ \<Rightarrow> None) = None"
proof (cases parts)
  case Nil
  then show ?thesis by simp
next
  case c1: (Cons a l1)
  show ?thesis
  proof (cases l1)
    case Nil
    with c1 assms show ?thesis by simp
  next
    case c2: (Cons b l2)
    show ?thesis
    proof (cases l2)
      case Nil
      with c1 c2 assms show ?thesis by simp
    next
      case (Cons c l3)
      with c1 c2 show ?thesis by simp
    qed
  qed
qed

lemma resolve_many_dots: "2 \<le> dotCount p \<Longrightarrow> getElementDetails p schema = None"
proof -
  assume "2 \<le> dotCount p"
  then have l: "3 \<le> length (split_dot p)" by (simp add: length_split_dot_dotCount)
  show ?thesis
    unfolding getElementDetails_def by (rule resolve_three_parts [OF l])
qed

lemma getType_None_iff: "getType schema n = None \<longleftrightarrow> n \<notin> fst ` set (typeMap schema)"
  by (simp add: getType_def map_of_eq_None_iff)

lemma getDirective_None_iff:
  "getDirective schema n = None \<longleftrightarrow> n \<notin> directive_name ` set (directives schema)"
  by (auto simp: getDirective_def find_None_iff)

lemma lookupField_None_iff:
  "lookupField schema typeName fieldName = None \<longleftrightarrow>
     (typeName \<notin> fst ` set (typeMap schema)
      \<or> (\<exists>t. getType schema typeName = Some t \<and>
            (outputFields t = None
             \<or> (\<exists>fs. outputFields t = Some fs \<and> fieldName \<notin> fst ` set fs))))"
  by (auto simp: lookupField_def getType_None_iff [symmetric] map_of_eq_None_iff
      split: option.splits)

section \<open>Auxiliary facts on the collected records\<close>

lemma collected_cases:
  "e \<in> set (collectSearchableElements schema) \<longleftrightarrow>
     (\<exists>typeName t. (typeName, t) \<in> set (typeMap schema) \<and> \<not> isMetaName typeName
                    \<and> e \<in> set (typeRecords (typeName, t)))
     \<or> (\<exists>d \<in> set (directives schema). e \<in> set (directiveRecords d))"
  by (auto simp: collect_unfold)

lemma typeRecords_cases:
  assumes "e \<in> set (typeRecords (typeName, t))"
  shows "e = typeElement typeName t
         \<or> (\<exists>fs fieldName field. outputFields t = Some fs \<and> (fieldName, field) \<in> set fs \<and>
               (e = fieldElement typeName fieldName field
                \<or> (\<exists>arg \<in> set (field_args field). e = fieldArgElement typeName fieldName arg)))
         \<or> (\<exists>fs fieldName field. type_shape t = GraphQLInputObjectType fs \<and>
               (fieldName, field) \<in> set fs \<and> e = inputFieldElement typeName fieldName field)"
  using assms
  by (cases "type_shape t") (auto simp: typeRecords_def fieldRecords_def outputFields_def)

lemma directiveRecords_cases:
  assumes "e \<in> set (directiveRecords d)"
  shows "e = directiveElement d \<or> (\<exists>arg \<in> set (directive_args d). e = directiveArgElement d arg)"
  using assms by (auto simp: directiveRecords_def)

lemma typeRecords_path:
  assumes "e \<in> set (typeRecords (typeName, t))"
  shows "\<exists>r. path e = typeName @ r \<and> (r = [] \<or> hd r = dot)"
  using typeRecords_cases [OF assms]
  by (auto simp: typeElement_def fieldElement_def fieldArgElement_def inputFieldElement_def
      js_dot)

lemma directiveRecords_path:
  assumes "e \<in> set (directiveRecords d)"
  shows "\<exists>r. path e = js ''@'' @ r"
  using directiveRecords_cases [OF assms]
  by (auto simp: directiveElement_def directiveArgElement_def)

lemma isMetaName_append: "isMetaName typeName \<Longrightarrow> isMetaName (typeName @ r)"
  by (auto simp: isMetaName_def startsWith_def prefix_def)

lemma not_isMetaName_append:
  assumes "\<not> isMetaName typeName" and "r = [] \<or> hd r = dot"
  shows "\<not> isMetaName (typeName @ r)"
proof (cases typeName)
  case Nil
  with assms(2) show ?thesis
    by (cases r) (auto simp: isMetaName_def startsWith_def js_def dot_def)
next
  case c1: (Cons a l)
  show ?thesis
  proof (cases l)
    case Nil
    with c1 assms(2) show ?thesis
      by (cases r) (auto simp: isMetaName_def startsWith_def js_def dot_def)
  next
    case (Cons b l')
    with c1 assms(1) show ?thesis
      by (auto simp: isMetaName_def startsWith_def js_def)
  qed
qed

lemma collected_not_meta:
  assumes "e \<in> set (collectSearchableElements schema)"
  shows "\<not> isMetaName (path e)"
proof -
  from assms consider
    (ty) typeName t where "(typeName, t) \<in> set (typeMap schema)" "\<not> isMetaName typeName"
      "e \<in> set (typeRecords (typeName, t))"
  | (dir) d where "d \<in> set (directives schema)" "e \<in> set (directiveRecords d)"
    by (auto simp: collected_cases)
  then show ?thesis
  proof cases
    case ty
    from typeRecords_path [OF ty(3)] obtain r
      where "path e = typeName @ r" "r = [] \<or> hd r = dot" by blast
    with ty(2) show ?thesis by (simp add: not_isMetaName_append)
  next
    case dir
    from directiveRecords_path [OF dir(2)] obtain r where "path e = js ''@'' @ r" by blast
    then show ?thesis by (simp add: isMetaName_def startsWith_def js_def)
  qed
qed

lemma collect_withoutMetaTypes:
  "collectSearchableElements (withoutMetaTypes schema) = collectSearchableElements schema"
  by (simp add: collect_unfold withoutMetaTypes_def case_prod_unfold)

lemma typeDetails_basic:
  "d_elementType (typeDetails t) = TypeElement \<and> d_name (typeDetails t) = type_name t
   \<and> d_kind (typeDetails t) = Some (typeKindOf (type_shape t))"
  by (cases "type_shape t") (simp_all add: typeDetails_def)

lemma collected_type_name:
  assumes "e \<in> set (collectSearchableElements schema)" and "elementType e = TypeElement"
  shows "name e = path e"
proof -
  from assms(1) consider
    (ty) typeName t where "e \<in> set (typeRecords (typeName, t))"
  | (dir) d where "e \<in> set (directiveRecords d)"
    by (auto simp: collected_cases)
  then show ?thesis
  proof cases
    case ty
    from typeRecords_cases [OF ty] assms(2) show ?thesis
      by (auto simp: typeElement_def fieldElement_def fieldArgElement_def inputFieldElement_def)
  next
    case dir
    from directiveRecords_cases [OF dir] assms(2) show ?thesis
      by (auto simp: directiveElement_def directiveArgElement_def)
  qed
qed

lemma wellFormed_entry:
  assumes "wellFormedSchema schema" and "(typeName, t) \<in> set (typeMap schema)"
  shows "getType schema typeName = Some t" and "type_name t = typeName"
    and "dotCount typeName = 0" and "\<not> startsWith typeName (js ''@'')"
    and "outputFields t = Some fs \<Longrightarrow> wellFormedFields fs"
proof -
  from assms have d: "distinct (map fst (typeMap schema))"
    and w: "wellFormedType (typeName, t)"
    by (auto simp: wellFormedSchema_def list_all_iff)
  from d assms(2) show "getType schema typeName = Some t" by (simp add: getType_def)
  from w show "type_name t = typeName" by (simp add: wellFormedType_def)
  from w show "dotCount typeName = 0" by (simp add: wellFormedType_def dotCount_0_iff)
  from w show "\<not> startsWith typeName (js ''@'')" by (simp add: wellFormedType_def)
  from w show "outputFields t = Some fs \<Longrightarrow> wellFormedFields fs"
    by (simp add: wellFormedType_def)
qed

lemma wellFormed_field:
  assumes "wellFormedFields fs" and "(fieldName, field) \<in> set fs"
  shows "map_of fs fieldName = Some field" and "field_name field = fieldName"
    and "dotCount fieldName = 0"
  using assms by (auto simp: wellFormedFields_def list_all_iff dotCount_0_iff)

lemma dotCount_append: "dotCount (a @ b) = dotCount a + dotCount b"
  by (induction a) (auto simp: dotCount_def)

lemma field_path_parts:
  assumes "dotCount typeName = 0" and "dotCount fieldName = 0"
  shows "dotCount (typeName @ dot # fieldName) = 1"
    and "beforeDot (typeName @ dot # fieldName) = typeName"
    and "afterDot (typeName @ dot # fieldName) = fieldName"
  using assms
  by (simp_all add: dotCount_0_iff dotCount_def count_list_0_iff beforeDot_def afterDot_def
      takeWhile_append dropWhile_append)

lemma resolve_type_record:
  assumes "wellFormedSchema schema" and "(typeName, t) \<in> set (typeMap schema)"
  shows "getElementDetails (path (typeElement typeName t)) schema = Some (typeDetails t)"
  using wellFormed_entry(1,3,4) [OF assms]
  by (simp add: typeElement_def resolve_zero_dots)

lemma resolve_field_record:
  assumes "wellFormedSchema schema" and "(typeName, t) \<in> set (typeMap schema)"
    and "outputFields t = Some fs" and "(fieldName, field) \<in> set fs"
  shows "getElementDetails (path (fieldElement typeName fieldName field)) schema
           = Some (fieldDetails typeName field)"
proof -
  note e = wellFormed_entry [OF assms(1,2)]
  note f = wellFormed_field [OF e(5) [OF assms(3)] assms(4)]
  note p = field_path_parts [OF e(3) f(3)]
  have "lookupField schema typeName fieldName = Some field"
    by (simp add: lookupField_def e(1) assms(3) f(1))
  then show ?thesis
    using resolve_one_dot [OF p(1), of schema] by (simp add: fieldElement_def js_dot p(2,3))
qed

lemma resolve_directive_record:
  assumes "wellFormedSchema schema" and "d \<in> set (directives schema)"
  shows "\<exists>d'. getElementDetails (path (directiveElement d)) schema = Some (directiveDetails d')
              \<and> directive_name d' = directive_name d"
proof -
  from assms have n: "dotCount (directive_name d) = 0"
    by (auto simp: wellFormedSchema_def list_all_iff dotCount_0_iff)
  then have c: "dotCount (js ''@'' @ directive_name d) = 0"
    by (simp add: dotCount_def js_def dot_def)
  from assms(2) obtain d' where f: "getDirective schema (directive_name d) = Some d'"
    using getDirective_None_iff [of schema "directive_name d"] by fastforce
  then have "directive_name d' = directive_name d"
    by (auto simp: getDirective_def find_Some_iff)
  moreover from f have "getElementDetails (path (directiveElement d)) schema
      = Some (directiveDetails d')"
    using resolve_zero_dots [OF c, of schema]
    by (simp add: directiveElement_def startsWith_def js_def)
  ultimately show ?thesis by blast
qed

section \<open>Facts on the example graph\<close>

lemmas example_types = exampleSchema_def queryType_def userType_def userInputType_def
  idType_def stringType_def schemaMetaType_def deprecatedDirective_def

lemmas example_fields = userField_def idField_def nameField_def typesField_def
  nameInputField_def idArgument_def reasonArgument_def

lemma example_collected:
  "collectSearchableElements exampleSchema =
   [typeElement (js ''Query'') queryType,
    fieldElement (js ''Query'') (js ''user'') userField,
    fieldArgElement (js ''Query'') (js ''user'') idArgument,
    typeElement (js ''User'') userType,
    fieldElement (js ''User'') (js ''id'') idField,
    fieldElement (js ''User'') (js ''name'') nameField,
    typeElement (js ''UserInput'') userInputType,
    inputFieldElement (js ''UserInput'') (js ''name'') nameInputField,
    typeElement (js ''ID'') idType,
    typeElement (js ''String'') stringType,
    directiveElement deprecatedDirective,
    directiveArgElement deprecatedDirective reasonArgument]"
  by (simp add: collect_unfold typeRecords_def fieldRecords_def directiveRecords_def
      isMetaName_def startsWith_def example_types userField_def idField_def nameField_def
      js_def)

lemma example_wellFormed: "wellFormedSchema exampleSchema"
  by (simp add: wellFormedSchema_def wellFormedType_def wellFormedFields_def outputFields_def
      startsWith_def example_types example_fields js_def dot_def)

section \<open>Meta types\<close>

text \<open>
  Claim C5. No record of the collected list comes from a type whose name starts with two
  underscores: the list is the one collected from the graph with those types removed from
  its type map; for every entry of the type map with such a name, none of its records (the
  type record, the records of its fields and of their arguments) is in the list; and no
  collected path starts with two underscores.
\<close>

theorem collectSearchableElements_skips_meta:
  "collectSearchableElements schema = collectSearchableElements (withoutMetaTypes schema)
   \<and> (\<forall>(typeName, t) \<in> set (typeMap schema). isMetaName typeName \<longrightarrow>
         (\<forall>e \<in> set (typeRecords (typeName, t)). e \<notin> set (collectSearchableElements schema)))
   \<and> (\<forall>e \<in> set (collectSearchableElements schema). \<not> isMetaName (path e))"
proof (intro conjI)
  show "collectSearchableElements schema = collectSearchableElements (withoutMetaTypes schema)"
    by (simp add: collect_withoutMetaTypes)
  show "\<forall>e \<in> set (collectSearchableElements schema). \<not> isMetaName (path e)"
    by (simp add: collected_not_meta)
  show "\<forall>(typeName, t) \<in> set (typeMap schema). isMetaName typeName \<longrightarrow>
         (\<forall>e \<in> set (typeRecords (typeName, t)). e \<notin> set (collectSearchableElements schema))"
  proof (clarify)
    fix typeName t e
    assume m: "isMetaName typeName" and r: "e \<in> set (typeRecords (typeName, t))"
      and c: "e \<in> set (collectSearchableElements schema)"
    from typeRecords_path [OF r] obtain r' where "path e = typeName @ r'" by blast
    with m have "isMetaName (path e)" by (simp add: isMetaName_append)
    with collected_not_meta [OF c] show False by simp
  qed
qed

theorem collectSearchableElements_skips_meta_witness:
  "(js ''__Schema'', schemaMetaType) \<in> set (typeMap exampleSchema)
   \<and> isMetaName (js ''__Schema'')
   \<and> fieldElement (js ''__Schema'') (js ''types'') typesField \<in> set (typeRecords (js ''__Schema'', schemaMetaType))
   \<and> fieldElement (js ''__Schema'') (js ''types'') typesField \<notin> set (collectSearchableElements exampleSchema)
   \<and> typeElement (js ''__Schema'') schemaMetaType \<notin> set (collectSearchableElements exampleSchema)"
proof -
  have a: "(js ''__Schema'', schemaMetaType) \<in> set (typeMap exampleSchema)"
    by (simp add: exampleSchema_def)
  have b: "isMetaName (js ''__Schema'')" by (simp add: isMetaName_def startsWith_def js_def)
  have c: "fieldElement (js ''__Schema'') (js ''types'') typesField \<in> set (typeRecords (js ''__Schema'', schemaMetaType))"
    "typeElement (js ''__Schema'') schemaMetaType \<in> set (typeRecords (js ''__Schema'', schemaMetaType))"
    by (simp_all add: typeRecords_def fieldRecords_def schemaMetaType_def)
  from collectSearchableElements_skips_meta [of exampleSchema] a b
  have "\<forall>e \<in> set (typeRecords (js ''__Schema'', schemaMetaType)).
          e \<notin> set (collectSearchableElements exampleSchema)"
    by blast
  with a b c show ?thesis by blast
qed

text \<open>
  Claim C10. The Path Resolver has no filter on meta types: when the type map holds a type
  under a name that starts with two underscores (a bare name, without a dot), resolving that
  name returns the detail record of that type, although no collected record has that path
  and no collected type record has that name.
\<close>

theorem getElementDetails_meta_type:
  assumes "getType schema n = Some t" and "isMetaName n" and "dotCount n = 0"
  shows "getElementDetails n schema = Some (typeDetails t)
         \<and> d_elementType (typeDetails t) = TypeElement
         \<and> d_name (typeDetails t) = type_name t
         \<and> d_kind (typeDetails t) = Some (typeKindOf (type_shape t))
         \<and> (\<forall>e \<in> set (collectSearchableElements schema).
               path e \<noteq> n \<and> (elementType e = TypeElement \<longrightarrow> name e \<noteq> n))"
proof -
  from assms(2) have "\<not> startsWith n (js ''@'')"
    by (cases n) (auto simp: isMetaName_def startsWith_def js_def)
  with assms(1,3) have g: "getElementDetails n schema = Some (typeDetails t)"
    by (simp add: resolve_zero_dots)
  have "\<forall>e \<in> set (collectSearchableElements schema).
          path e \<noteq> n \<and> (elementType e = TypeElement \<longrightarrow> name e \<noteq> n)"
    using collected_not_meta [of _ schema] collected_type_name [of _ schema] assms(2)
    by metis
  with g typeDetails_basic [of t] show ?thesis by simp
qed

theorem getElementDetails_meta_type_witness:
  "getType exampleSchema (js ''__Schema'') = Some schemaMetaType
   \<and> isMetaName (js ''__Schema'')
   \<and> dotCount (js ''__Schema'') = 0
   \<and> getElementDetails (js ''__Schema'') exampleSchema = Some (typeDetails schemaMetaType)
   \<and> d_name (typeDetails schemaMetaType) = js ''__Schema''
   \<and> d_kind (typeDetails schemaMetaType) = Some (js ''OBJECT'')
   \<and> (js ''__Schema'') \<notin> path ` set (collectSearchableElements exampleSchema)"
proof -
  have a: "getType exampleSchema (js ''__Schema'') = Some schemaMetaType"
    by (simp add: getType_def exampleSchema_def js_def)
  have b: "isMetaName (js ''__Schema'')" by (simp add: isMetaName_def startsWith_def js_def)
  have c: "dotCount (js ''__Schema'') = 0" by (simp add: dotCount_def js_def dot_def)
  show ?thesis
    using getElementDetails_meta_type [OF a b c] a b c by (auto simp: schemaMetaType_def)
qed

section \<open>Properties of the Path Resolver\<close>

text \<open>
  Claim C3. The Path Resolver is a total function: it returns a value on every path and
  every graph. It returns not-found exactly when the path has two or more dots; or has no
  dot, starts with an at sign, and the rest names no directive of the graph; or has no dot,
  does not start with an at sign, and is no key of the type map; or has one dot, and the
  part before the dot is no key of the type map, or names a type that is neither an object
  nor an interface type, or names such a type that has no field named by the part after
  the dot.
\<close>

theorem getElementDetails_not_found:
  "getElementDetails p schema = None \<longleftrightarrow>
     (2 \<le> dotCount p
      \<or> (dotCount p = 0 \<and> startsWith p (js ''@'')
          \<and> drop 1 p \<notin> directive_name ` set (directives schema))
      \<or> (dotCount p = 0 \<and> \<not> startsWith p (js ''@'') \<and> p \<notin> fst ` set (typeMap schema))
      \<or> (dotCount p = 1
          \<and> (beforeDot p \<notin> fst ` set (typeMap schema)
             \<or> (\<exists>t. getType schema (beforeDot p) = Some t \<and>
                   (outputFields t = None
                    \<or> (\<exists>fs. outputFields t = Some fs \<and> afterDot p \<notin> fst ` set fs))))))"
proof -
  consider "dotCount p = 0" | "dotCount p = 1" | "2 \<le> dotCount p" by linarith
  then show ?thesis
  proof cases
    case 1
    then show ?thesis
      by (simp add: resolve_zero_dots getType_None_iff getDirective_None_iff)
  next
    case 2
    then show ?thesis
      by (simp add: resolve_one_dot lookupField_None_iff)
  next
    case 3
    then show ?thesis by (simp add: resolve_many_dots)
  qed
qed

theorem getElementDetails_not_found_witness:
  "dotCount (js ''UserInput.name'') = 1
   \<and> getType exampleSchema (beforeDot (js ''UserInput.name'')) = Some userInputType
   \<and> outputFields userInputType = None
   \<and> getElementDetails (js ''UserInput.name'') exampleSchema = None"
proof -
  have a: "dotCount (js ''UserInput.name'') = 1" by (simp add: dotCount_def js_def dot_def)
  have b: "getType exampleSchema (beforeDot (js ''UserInput.name'')) = Some userInputType"
    by (simp add: beforeDot_def getType_def exampleSchema_def js_def dot_def)
  have c: "outputFields userInputType = None"
    by (simp add: outputFields_def userInputType_def)
  show ?thesis
    using getElementDetails_not_found [of "(js ''UserInput.name'')" exampleSchema] a b c by simp
qed

text \<open>
  Claim C9. The Path Resolver looks at the number of dots before it looks for a leading at
  sign. A path with at least one dot resolves, if at all, to a field record, never to a
  directive record. A path made of an at sign, a name, a dot and a name is looked up as the
  field of the type whose name is the at sign with the first name. And a path with a
  leading at sign and at least one dot is not found whenever no key of the type map starts
  with an at sign.
\<close>

theorem getElementDetails_dots_before_at:
  "(1 \<le> dotCount p \<longrightarrow>
      (\<forall>d. getElementDetails p schema = Some d \<longrightarrow> d_elementType d = FieldElement))
   \<and> (dot \<notin> set dn \<and> dot \<notin> set x \<longrightarrow>
        getElementDetails (js ''@'' @ dn @ js ''.'' @ x) schema =
          map_option (fieldDetails (js ''@'' @ dn)) (lookupField schema (js ''@'' @ dn) x))
   \<and> (1 \<le> dotCount p \<and> startsWith p (js ''@'')
        \<and> (\<forall>typeName \<in> fst ` set (typeMap schema). \<not> startsWith typeName (js ''@''))
        \<longrightarrow> getElementDetails p schema = None)"
proof (intro conjI impI allI)
  fix d
  assume a: "1 \<le> dotCount p" and b: "getElementDetails p schema = Some d"
  consider "dotCount p = 1" | "2 \<le> dotCount p" using a by linarith
  then show "d_elementType d = FieldElement"
  proof cases
    case 1
    with b show ?thesis by (auto simp: resolve_one_dot fieldDetails_def)
  next
    case 2
    with b show ?thesis by (simp add: resolve_many_dots)
  qed
next
  assume a: "dot \<notin> set dn \<and> dot \<notin> set x"
  let ?p = "js ''@'' @ dn @ js ''.'' @ x"
  have c: "dotCount ?p = 1"
    using a by (simp add: dotCount_def count_list_0_iff js_def dot_def)
  have b: "beforeDot ?p = js ''@'' @ dn"
    using a by (simp add: beforeDot_def takeWhile_append js_def dot_def)
  have f: "afterDot ?p = x"
    using a by (simp add: afterDot_def dropWhile_append js_def dot_def)
  show "getElementDetails ?p schema =
          map_option (fieldDetails (js ''@'' @ dn)) (lookupField schema (js ''@'' @ dn) x)"
    using resolve_one_dot [OF c, of schema] by (simp only: b f)
next
  assume a: "1 \<le> dotCount p \<and> startsWith p (js ''@'')
        \<and> (\<forall>typeName \<in> fst ` set (typeMap schema). \<not> startsWith typeName (js ''@''))"
  consider "dotCount p = 1" | "2 \<le> dotCount p" using a by linarith
  then show "getElementDetails p schema = None"
  proof cases
    case 1
    from a have "startsWith (beforeDot p) (js ''@'')"
      by (cases p) (auto simp: startsWith_def beforeDot_def dotCount_def js_def dot_def)
    with a have "beforeDot p \<notin> fst ` set (typeMap schema)" by blast
    then have "getType schema (beforeDot p) = None" by (simp add: getType_None_iff)
    with 1 show ?thesis by (simp add: resolve_one_dot lookupField_def)
  next
    case 2
    then show ?thesis by (simp add: resolve_many_dots)
  qed
qed

theorem getElementDetails_dots_before_at_witness:
  "1 \<le> dotCount (js ''@deprecated.reason'')
   \<and> startsWith (js ''@deprecated.reason'') (js ''@'')
   \<and> list_all (\<lambda>typeName. \<not> startsWith typeName (js ''@'')) (map fst (typeMap exampleSchema))
   \<and> getElementDetails (js ''@deprecated.reason'') exampleSchema = None"
proof -
  have a: "1 \<le> dotCount (js ''@deprecated.reason'')" by (simp add: dotCount_def js_def dot_def)
  have b: "startsWith (js ''@deprecated.reason'') (js ''@'')"
    by (simp add: startsWith_def js_def)
  have c: "\<forall>typeName \<in> fst ` set (typeMap exampleSchema). \<not> startsWith typeName (js ''@'')"
    by (simp add: exampleSchema_def startsWith_def js_def)
  have d: "list_all (\<lambda>typeName. \<not> startsWith typeName (js ''@'')) (map fst (typeMap exampleSchema))"
    by (simp add: exampleSchema_def startsWith_def js_def)
  have "getElementDetails (js ''@deprecated.reason'') exampleSchema = None"
    using getElementDetails_dots_before_at [of "(js ''@deprecated.reason'')" exampleSchema] a b c
    by blast
  with a b d show ?thesis by simp
qed

section \<open>Paths of collected records through the resolver\<close>

text \<open>
  Claim C1, as stated: the path of every collected record resolves to a detail record of
  the same element. The example graph is well formed, and three of its collected records
  have a path that is not found: the record of the argument \<^verbatim>\<open>id\<close> of the field
  \<^verbatim>\<open>Query.user\<close> (path \<^verbatim>\<open>Query.user(id)\<close>), the record of the field \<^verbatim>\<open>name\<close> of the
  input object type \<^verbatim>\<open>UserInput\<close> (path \<^verbatim>\<open>UserInput.name\<close>), and the record of the
  argument \<^verbatim>\<open>reason\<close> of the directive (path \<^verbatim>\<open>@deprecated(reason)\<close>).
\<close>

theorem collected_path_resolves_counterexample:
  "wellFormedSchema exampleSchema
   \<and> fieldArgElement (js ''Query'') (js ''user'') idArgument \<in> set (collectSearchableElements exampleSchema)
   \<and> getElementDetails (path (fieldArgElement (js ''Query'') (js ''user'') idArgument)) exampleSchema = None
   \<and> inputFieldElement (js ''UserInput'') (js ''name'') nameInputField
        \<in> set (collectSearchableElements exampleSchema)
   \<and> getElementDetails (path (inputFieldElement (js ''UserInput'') (js ''name'') nameInputField))
        exampleSchema = None
   \<and> directiveArgElement deprecatedDirective reasonArgument
        \<in> set (collectSearchableElements exampleSchema)
   \<and> getElementDetails (path (directiveArgElement deprecatedDirective reasonArgument))
        exampleSchema = None"
proof -
  have "dotCount (js ''Query.user(id)'') = 1" by (simp add: dotCount_def js_def dot_def)
  then have "getElementDetails (js ''Query.user(id)'') exampleSchema = None"
    by (simp add: resolve_one_dot lookupField_def beforeDot_def afterDot_def getType_def
        outputFields_def example_types js_def dot_def)
  then have a: "getElementDetails (path (fieldArgElement (js ''Query'') (js ''user'') idArgument))
        exampleSchema = None"
    by (simp add: fieldArgElement_def idArgument_def js_def)
  have "dotCount (js ''UserInput.name'') = 1" by (simp add: dotCount_def js_def dot_def)
  then have "getElementDetails (js ''UserInput.name'') exampleSchema = None"
    by (simp add: resolve_one_dot lookupField_def beforeDot_def afterDot_def getType_def
        outputFields_def example_types js_def dot_def)
  then have b: "getElementDetails (path (inputFieldElement (js ''UserInput'') (js ''name'') nameInputField))
        exampleSchema = None"
    by (simp add: inputFieldElement_def js_def)
  have "dotCount (js ''@deprecated(reason)'') = 0" by (simp add: dotCount_def js_def dot_def)
  then have "getElementDetails (js ''@deprecated(reason)'') exampleSchema = None"
    by (simp add: resolve_zero_dots startsWith_def getDirective_def example_types js_def)
  then have c: "getElementDetails (path (directiveArgElement deprecatedDirective reasonArgument))
        exampleSchema = None"
    by (simp add: directiveArgElement_def deprecatedDirective_def reasonArgument_def js_def)
  from a b c show ?thesis
    by (simp add: example_wellFormed example_collected)
qed

text \<open>
  Claim C1, amended: in a well-formed graph, the path of every collected type record,
  directive record, and field record of an object or interface type resolves to a detail
  record with the same name and the same element type; for a type record the kind agrees
  with the record's type kind, and for a field record the parent type and the printed type
  agree. Argument records and the field records of input object types are left out: the
  resolver has no path shape for arguments and looks fields up in object and interface
  types only.
\<close>

theorem collected_path_resolves:
  assumes "wellFormedSchema schema"
    and "e \<in> set (collectSearchableElements schema)"
    and "elementType e = TypeElement \<or> elementType e = DirectiveElement
         \<or> (elementType e = FieldElement
             \<and> (\<exists>typeName t. parentType e = Some typeName \<and> getType schema typeName = Some t
                    \<and> outputFields t \<noteq> None))"
  shows "\<exists>d. getElementDetails (path e) schema = Some d
             \<and> d_name d = name e
             \<and> d_elementType d = elementType e
             \<and> (elementType e = TypeElement \<longrightarrow> d_kind d = typeKind e)
             \<and> (elementType e = FieldElement \<longrightarrow>
                   d_parentType d = parentType e \<and> d_type d = returnType e)"
proof -
  from assms(2) consider
    (ty) typeName t where "(typeName, t) \<in> set (typeMap schema)"
      "e \<in> set (typeRecords (typeName, t))"
  | (dir) d where "d \<in> set (directives schema)" "e \<in> set (directiveRecords d)"
    by (auto simp: collected_cases)
  then show ?thesis
  proof cases
    case ty
    note w = wellFormed_entry [OF assms(1) ty(1)]
    from typeRecords_cases [OF ty(2)] consider
      (a) "e = typeElement typeName t"
    | (b) fs fieldName field where "outputFields t = Some fs" "(fieldName, field) \<in> set fs"
        "e = fieldElement typeName fieldName field"
    | (c) fieldName arg where "e = fieldArgElement typeName fieldName arg"
    | (d) fs fieldName field where "type_shape t = GraphQLInputObjectType fs"
        "e = inputFieldElement typeName fieldName field"
      by blast
    then show ?thesis
    proof cases
      case a
      have "getElementDetails (path e) schema = Some (typeDetails t)"
        unfolding a by (rule resolve_type_record [OF assms(1) ty(1)])
      moreover have "d_name (typeDetails t) = name e" "d_elementType (typeDetails t) = elementType e"
        "d_kind (typeDetails t) = typeKind e"
        using typeDetails_basic [of t] w(2) by (simp_all add: a typeElement_def)
      moreover have "elementType e \<noteq> FieldElement" by (simp add: a typeElement_def)
      ultimately show ?thesis by simp
    next
      case b
      have "getElementDetails (path e) schema = Some (fieldDetails typeName field)"
        unfolding b(3) by (rule resolve_field_record [OF assms(1) ty(1) b(1,2)])
      moreover have "field_name field = fieldName"
        using wellFormed_field(2) [OF w(5) [OF b(1)] b(2)] .
      ultimately show ?thesis
        by (simp add: b(3) fieldElement_def fieldDetails_def)
    next
      case c
      with assms(3) show ?thesis by (simp add: fieldArgElement_def)
    next
      case d
      then have "outputFields t = None" by (simp add: outputFields_def)
      with assms(3) d(2) w(1) show ?thesis by (auto simp: inputFieldElement_def)
    qed
  next
    case dir
    from directiveRecords_cases [OF dir(2)] consider
      (a) "e = directiveElement d"
    | (b) arg where "e = directiveArgElement d arg"
      by blast
    then show ?thesis
    proof cases
      case a
      from resolve_directive_record [OF assms(1) dir(1)] obtain d'
        where "getElementDetails (path e) schema = Some (directiveDetails d')"
          "directive_name d' = directive_name d"
        unfolding a by blast
      then show ?thesis by (simp add: a directiveElement_def directiveDetails_def)
    next
      case b
      with assms(3) show ?thesis by (simp add: directiveArgElement_def)
    qed
  qed
qed

theorem collected_path_resolves_witness:
  "wellFormedSchema exampleSchema
   \<and> fieldElement (js ''User'') (js ''id'') idField \<in> set (collectSearchableElements exampleSchema)
   \<and> getType exampleSchema (js ''User'') = Some userType
   \<and> outputFields userType \<noteq> None
   \<and> (\<exists>d. getElementDetails (js ''User.id'') exampleSchema = Some d
           \<and> d_name d = js ''id'' \<and> d_elementType d = FieldElement
           \<and> d_parentType d = Some (js ''User'') \<and> d_type d = Some (js ''ID!''))"
proof -
  let ?e = "fieldElement (js ''User'') (js ''id'') idField"
  have h2: "?e \<in> set (collectSearchableElements exampleSchema)"
    by (simp add: example_collected)
  have g: "getType exampleSchema (js ''User'') = Some userType"
    by (simp add: getType_def exampleSchema_def js_def)
  have o: "outputFields userType \<noteq> None"
    by (simp add: outputFields_def userType_def)
  have h3: "elementType ?e = TypeElement \<or> elementType ?e = DirectiveElement
         \<or> (elementType ?e = FieldElement
             \<and> (\<exists>typeName t. parentType ?e = Some typeName
                    \<and> getType exampleSchema typeName = Some t \<and> outputFields t \<noteq> None))"
    using g o by (simp add: fieldElement_def)
  show ?thesis
    using collected_path_resolves [OF example_wellFormed h2 h3] h2 g o
    by (simp add: example_wellFormed fieldElement_def idField_def js_def)
qed

end
